theory Spec2Isabelle
  imports Complex_Main
begin

section \<open>Data model (database/schema.sql)\<close>

text \<open>
  The tables the payment routes touch. Money columns (\<open>DECIMAL\<close>) are exact decimals and are
  modelled as rationals; timestamps are milliseconds on one clock; an SQL \<open>NULL\<close> is
  \<open>None\<close>. Of each table the columns that matter to the payment routes are kept.
\<close>

datatype member_status = active | inactive | suspended | pending_payment

datatype purpose = membership_fee | share_purchase | loan_repayment | deposit | other

datatype payment_status = pending | completed | failed | expired

record member =
  account_number :: string
  first_name :: string
  last_name :: string
  balance :: rat
  share_count :: int
  share_value :: rat
  membership_fees_paid :: rat
  entry_fee_paid :: bool
  welfare_fund_paid :: bool
  building_fund_paid :: bool
  status :: member_status

record payment_request =
  request_id :: nat
  member_id :: nat
  transaction_id :: string
  amount :: rat
  purpose :: purpose
  description :: "string option"
  payment_status :: payment_status
  payment_method :: "string option"
  bank_reference_number :: "string option"
  receipt_generated :: bool
  expires_at :: nat
  paid_at :: "nat option"

text \<open>
  The \<open>transactions\<close> table as database/schema.sql declares it: a \<open>NOT NULL\<close>
  \<open>transaction_number\<close> without default, a \<open>transaction_type\<close> from an \<open>ENUM\<close> that
  has no \<open>'credit'\<close>, a \<open>NOT NULL\<close> \<open>reference_type\<close>, and no \<open>created_at\<close> column.
\<close>

record transaction_record =
  transaction_number :: string
  t_member_id :: nat
  transaction_type :: string
  t_amount :: rat
  balance_after :: rat
  reference_type :: string
  t_description :: string

record receipt_data =
  society_name :: string
  registration_no :: string
  registration_date :: string
  upi_id :: string
  rd_transaction_id :: string
  rd_bank_reference :: "string option"
  rd_payment_method :: string

record receipt =
  payment_request_id :: nat
  r_member_id :: nat
  receipt_number :: string
  r_amount :: rat
  payment_date :: nat
  r_purpose :: purpose
  bank_reference :: "string option"
  r_receipt_data :: "receipt_data option"

record db =
  members :: "nat \<rightharpoonup> member"
  upi_payment_requests :: "payment_request list"
  transactions :: "transaction_record list"
  payment_receipts :: "receipt list"

section \<open>Database access (config/database.js)\<close>

text \<open>
  Every handler is a chain of awaited database calls. A call either throws or returns, and
  what it has written before a throw stays written unless a rollback undoes it, so a
  computation returns its outcome together with the state it leaves behind.

  The state is the committed database together with the statements that the connection
  of the running \<open>transaction\<close> has executed and not yet committed.
\<close>

text \<open>
  What a handler can answer besides success. \<open>ValidationError\<close> is the 400 of the
  validators and \<open>NotFound\<close> the 404 of the two read routes; everything else is caught
  and answered with 500: the two errors the confirm callback throws itself, a failure of
  the database (\<open>StorageFailure\<close>), and the \<open>TypeError\<close> and \<open>SyntaxError\<close> that
  JavaScript raises.
\<close>

datatype error =
    ValidationError
  | RequestNotFoundOrProcessed
  | Expired
  | StorageFailure
  | NotFound
  | TypeError
  | SyntaxError

type_synonym world = "db \<times> (db \<Rightarrow> db) list"

type_synonym 'a io = "world \<Rightarrow> (error + 'a) \<times> world"

definition return :: "'a \<Rightarrow> 'a io" where
  "return a w = (Inr a, w)"

definition throw :: "error \<Rightarrow> 'a io" where
  "throw e w = (Inl e, w)"

definition await :: "'a io \<Rightarrow> ('a \<Rightarrow> 'b io) \<Rightarrow> 'b io" where
  "await m k w = (case m w of (Inl e, w') \<Rightarrow> (Inl e, w') | (Inr a, w') \<Rightarrow> k a w')"

text \<open>
  The database calls of the payment routes. A storage failure (a constraint violation, a
  lost connection) can strike any of them; \<open>flt\<close> says which.
\<close>

datatype step =
    InsertRequest
  | LookupMember
  | LookupRequest
  | MarkExpired
  | MarkCompleted
  | UpdateMember
  | InsertTransaction
  | InsertReceipt
  | MarkReceiptGenerated
  | Commit
  | LookupReceipt
  | LookupStatus

text \<open>
  \<open>getOne(query, params = [])\<close> runs on the pool: it has no third parameter, so the
  connection that the payment routes hand to it is dropped and the read sees the committed
  database.
\<close>

definition getOne :: "(step \<Rightarrow> bool) \<Rightarrow> step \<Rightarrow> (db \<Rightarrow> 'a option) \<Rightarrow> 'a option io" where
  "getOne flt st sel w =
     (if flt st then (Inl StorageFailure, w) else (Inr (sel (fst w)), w))"

text \<open>
  The statement helper. The payment routes call \<open>query(sql, params, connection)\<close>, a name
  they destructure from config/database.js. That module exports \<open>pool\<close>,
  \<open>executeQuery\<close>, \<open>getOne\<close>, \<open>transaction\<close>, \<open>testConnection\<close> and \<open>closePool\<close>, and no
  \<open>query\<close>: the name is \<open>undefined\<close>, and every call of it throws a \<open>TypeError\<close> before
  any SQL is sent. This is \<open>Unbound\<close>, the source as it stands.

  The two other values are the source with the name bound: \<open>OnPool\<close> to the module's
  \<open>executeQuery(query, params = [])\<close>, which like \<open>getOne\<close> executes on the pool and commits
  at once whatever third argument it is given, and \<open>OnConnection\<close> to a helper that would
  execute on the connection it is handed, inside the open transaction.

  A bound helper hands the bind list to mysql2, which throws a \<open>TypeError\<close> when the list
  contains \<open>undefined\<close> (\<open>bound\<close> says that it does not). The statement itself is refused by
  the database when it violates the schema: it then yields \<open>None\<close>. The last argument says
  whether the call passes a connection at all.
\<close>

datatype executor = Unbound | OnPool | OnConnection

definition query ::
  "executor \<Rightarrow> (step \<Rightarrow> bool) \<Rightarrow> step \<Rightarrow> bool \<Rightarrow> (db \<Rightarrow> db option) \<Rightarrow> bool \<Rightarrow> unit io" where
  "query ex flt st bound stmt connection w =
     (if ex = Unbound then (Inl TypeError, w)
      else if \<not> bound then (Inl TypeError, w)
      else if flt st then (Inl StorageFailure, w)
      else if ex = OnConnection \<and> connection then
        (case stmt (fold (\<lambda>s. s) (snd w) (fst w)) of
           None \<Rightarrow> (Inl StorageFailure, w)
         | Some d' \<Rightarrow>
             (Inr (), (fst w, snd w @ [\<lambda>d. case stmt d of None \<Rightarrow> d | Some d'' \<Rightarrow> d''])))
      else
        (case stmt (fst w) of
           None \<Rightarrow> (Inl StorageFailure, w)
         | Some d' \<Rightarrow> (Inr (), (d', snd w))))"

text \<open>A handler call outside \<open>transaction\<close>: nothing is left uncommitted.\<close>

definition run :: "'a io \<Rightarrow> db \<Rightarrow> (error + 'a) \<times> db" where
  "run m d = (case m (d, []) of (res, (d', uncommitted)) \<Rightarrow> (res, d'))"

text \<open>
  \<open>transaction(callback)\<close>: begin, run the callback, commit; on any throw roll back and
  rethrow. Commit applies the connection's statements in order; rollback drops them.
\<close>

definition transaction :: "(step \<Rightarrow> bool) \<Rightarrow> 'a io \<Rightarrow> db \<Rightarrow> (error + 'a) \<times> db" where
  "transaction flt callback d =
     (case callback (d, []) of
        (Inl e, (d', uncommitted)) \<Rightarrow> (Inl e, d')
      | (Inr a, (d', uncommitted)) \<Rightarrow>
          if flt Commit then (Inl StorageFailure, d')
          else (Inr a, fold (\<lambda>stmt. stmt) uncommitted d'))"

section \<open>Account mutation (routes/payments.js, updateMemberForPayment)\<close>

text \<open>
  The \<open>UPDATE members ... WHERE id = ?\<close> of each purpose, on the addressed row. All five
  placeholders of the membership-fee statement are bound to the payment's \<open>amount\<close>.
\<close>

definition update_member_row :: "purpose \<Rightarrow> rat \<Rightarrow> member \<Rightarrow> member" where
  "update_member_row purp amt m =
     (case purp of
        membership_fee \<Rightarrow>
          m\<lparr>membership_fees_paid := membership_fees_paid m + amt,
            entry_fee_paid := (if amt \<ge> 200 then True else entry_fee_paid m),
            welfare_fund_paid := (if amt \<ge> 400 then True else welfare_fund_paid m),
            building_fund_paid := (if amt \<ge> 2400 then True else building_fund_paid m),
            status := (if amt \<ge> 2400 then active else pending_payment)\<rparr>
      | share_purchase \<Rightarrow>
          m\<lparr>share_count := share_count m + \<lfloor>amt / 100\<rfloor>,
            share_value := share_value m + amt,
            balance := balance m + amt\<rparr>
      | deposit \<Rightarrow> m\<lparr>balance := balance m + amt\<rparr>
      | loan_repayment \<Rightarrow> m\<lparr>balance := balance m + amt\<rparr>
      | other \<Rightarrow> m\<lparr>balance := balance m + amt\<rparr>)"

definition update_members :: "payment_request \<Rightarrow> db \<Rightarrow> db" where
  "update_members p d =
     (case members d (member_id p) of
        None \<Rightarrow> d
      | Some m \<Rightarrow>
          d\<lparr>members := (members d)(member_id p \<mapsto> update_member_row (purpose p) (amount p) m)\<rparr>)"

definition purpose_name :: "purpose \<Rightarrow> string" where
  "purpose_name purp =
     (case purp of
        membership_fee \<Rightarrow> ''membership_fee''
      | share_purchase \<Rightarrow> ''share_purchase''
      | loan_repayment \<Rightarrow> ''loan_repayment''
      | deposit \<Rightarrow> ''deposit''
      | other \<Rightarrow> ''other'')"

text \<open>
  \<open>INSERT INTO transactions (member_id, transaction_type, amount, description,
  balance_after, created_at) VALUES (?, 'credit', ?, ?, (SELECT balance ...), NOW())\<close>. The
  table of database/schema.sql has no \<open>created_at\<close> column (nor \<open>'credit'\<close> among its
  types, nor a default for \<open>transaction_number\<close> and \<open>reference_type\<close>): the database refuses
  the statement, whatever the row.
\<close>

definition insert_transaction :: "nat \<Rightarrow> payment_request \<Rightarrow> db \<Rightarrow> db option" where
  "insert_transaction now p d = None"

definition updateMemberForPayment ::
  "executor \<Rightarrow> (step \<Rightarrow> bool) \<Rightarrow> nat \<Rightarrow> payment_request \<Rightarrow> unit io" where
  "updateMemberForPayment ex flt now p =
     await (query ex flt UpdateMember True (\<lambda>d. Some (update_members p d)) True)
       (\<lambda>_. query ex flt InsertTransaction True (insert_transaction now p) True)"

section \<open>Payment request lifecycle (routes/payments.js)\<close>

text \<open>A number as a template literal prints it: \<open>`KCS${Date.now()}...`\<close>.\<close>

function decimal :: "nat \<Rightarrow> string" where
  "decimal n =
     (if n < 10 then [''0123456789'' ! n]
      else decimal (n div 10) @ [''0123456789'' ! (n mod 10)])"
  by pat_completeness auto
termination
  by (relation "measure id") auto

declare decimal.simps [simp del]

definition purpose_of_name :: "string \<Rightarrow> purpose option" where
  "purpose_of_name s =
     (if s = ''membership_fee'' then Some membership_fee
      else if s = ''share_purchase'' then Some share_purchase
      else if s = ''loan_repayment'' then Some loan_repayment
      else if s = ''deposit'' then Some deposit
      else if s = ''other'' then Some other
      else None)"

subsection \<open>POST /upi/generate\<close>

text \<open>
  The validators of the route: \<open>isFloat({ min: 1 })\<close> on the amount, \<open>isIn\<close> on the
  purpose, \<open>optional().isLength({ max: 500 })\<close> on the description.
\<close>

definition generate_valid :: "rat \<Rightarrow> string \<Rightarrow> string option \<Rightarrow> bool" where
  "generate_valid amt purp descr \<longleftrightarrow>
     amt \<ge> 1 \<and>
     purpose_of_name purp \<noteq> None \<and>
     (case descr of None \<Rightarrow> True | Some s \<Rightarrow> length s \<le> 500)"

record generate_response =
  g_request_id :: nat
  g_transaction_id :: string
  g_upi_id :: string
  g_amount :: rat
  g_purpose :: string
  g_description :: "string option"
  g_member_name :: string
  g_account_number :: string
  g_expires_at :: nat

definition next_request_id :: "payment_request list \<Rightarrow> nat" where
  "next_request_id rs = Suc (fold max (map request_id rs) 0)"

text \<open>
  \<open>INSERT INTO upi_payment_requests\<close>; the other columns take their defaults. The table
  has \<open>transaction_id UNIQUE\<close> and a foreign key from \<open>member_id\<close> to \<open>members(id)\<close>:
  the insert is refused when either is violated.
\<close>

definition insert_request ::
  "nat \<Rightarrow> string \<Rightarrow> rat \<Rightarrow> purpose \<Rightarrow> string option \<Rightarrow> nat \<Rightarrow> db \<Rightarrow> db" where
  "insert_request memberId transactionId amt purp descr expiresAt d =
     d\<lparr>upi_payment_requests := upi_payment_requests d @
         [\<lparr>request_id = next_request_id (upi_payment_requests d),
           member_id = memberId,
           transaction_id = transactionId,
           amount = amt,
           purpose = purp,
           description = descr,
           payment_status = pending,
           payment_method = None,
           bank_reference_number = None,
           receipt_generated = False,
           expires_at = expiresAt,
           paid_at = None\<rparr>]\<rparr>"

definition insert_request_refused :: "nat \<Rightarrow> string \<Rightarrow> db \<Rightarrow> bool" where
  "insert_request_refused memberId transactionId d \<longleftrightarrow>
     members d memberId = None \<or>
     transactionId \<in> set (map transaction_id (upi_payment_requests d))"

definition insert_request_statement ::
  "nat \<Rightarrow> string \<Rightarrow> rat \<Rightarrow> purpose \<Rightarrow> string option \<Rightarrow> nat \<Rightarrow> db \<Rightarrow> db option" where
  "insert_request_statement memberId transactionId amt purp descr expiresAt d =
     (if insert_request_refused memberId transactionId d then None
      else Some (insert_request memberId transactionId amt purp descr expiresAt d))"

text \<open>
  \<open>now\<close> is the clock of the call and \<open>rnd\<close> the value of
  \<open>Math.floor(Math.random() * 1000)\<close>. The description is stored as \<open>description || null\<close>.
  The statement is issued without a connection, and none of its binds is \<open>undefined\<close>.
  When the member row is missing, \<open>member.first_name\<close> throws a \<open>TypeError\<close>. The
  response's \<open>payment_url\<close>, a string built from the same fields, is left out.
\<close>

definition upi_generate ::
  "executor \<Rightarrow> (step \<Rightarrow> bool) \<Rightarrow> nat \<Rightarrow> nat \<Rightarrow> nat \<Rightarrow> rat \<Rightarrow> string \<Rightarrow> string option \<Rightarrow> db
     \<Rightarrow> (error + generate_response) \<times> db" where
  "upi_generate ex flt now rnd memberId amt purp descr d =
     (if \<not> generate_valid amt purp descr then (Inl ValidationError, d)
      else
        let transactionId = ''KCS'' @ decimal now @ decimal rnd;
            expiresAt = now + 30 * 60000;
            requestId = next_request_id (upi_payment_requests d)
        in run
          (await
             (query ex flt InsertRequest True
                (insert_request_statement memberId transactionId amt (the (purpose_of_name purp))
                   (if descr = Some [] then None else descr) expiresAt) False)
             (\<lambda>_. await (getOne flt LookupMember (\<lambda>d'. members d' memberId))
                (\<lambda>member. case member of
                     None \<Rightarrow> throw TypeError
                   | Some m \<Rightarrow>
                       return
                         \<lparr>g_request_id = requestId,
                           g_transaction_id = transactionId,
                           g_upi_id = ''meghajoshisut30@oksbi'',
                           g_amount = amt,
                           g_purpose = purp,
                           g_description = descr,
                           g_member_name = first_name m @ '' '' @ last_name m,
                           g_account_number = account_number m,
                           g_expires_at = expiresAt\<rparr>))) d)"

subsection \<open>POST /upi/confirm\<close>

text \<open>
  The validators of the route: \<open>notEmpty\<close> on the transaction id,
  \<open>optional().isLength({ min: 5 })\<close> on the bank reference,
  \<open>optional().isLength({ max: 50 })\<close> on the payment method.
\<close>

definition confirm_valid :: "string \<Rightarrow> string option \<Rightarrow> string option \<Rightarrow> bool" where
  "confirm_valid transactionId bankRef paymentMethod \<longleftrightarrow>
     transactionId \<noteq> [] \<and>
     (case bankRef of None \<Rightarrow> True | Some s \<Rightarrow> length s \<ge> 5) \<and>
     (case paymentMethod of None \<Rightarrow> True | Some s \<Rightarrow> length s \<le> 50)"

text \<open>\<open>payment_method || 'UPI'\<close>\<close>

definition method_or_upi :: "string option \<Rightarrow> string" where
  "method_or_upi paymentMethod =
     (case paymentMethod of None \<Rightarrow> ''UPI'' | Some s \<Rightarrow> if s = [] then ''UPI'' else s)"

text \<open>
  The three \<open>UPDATE upi_payment_requests ... WHERE request_id = ?\<close> statements. The bind
  list of the second holds \<open>bank_reference_number\<close> as the body has it: \<open>undefined\<close> when
  the body has none.
\<close>

definition update_request ::
  "nat \<Rightarrow> (payment_request \<Rightarrow> payment_request) \<Rightarrow> db \<Rightarrow> db" where
  "update_request rid f d =
     d\<lparr>upi_payment_requests :=
         map (\<lambda>r. if request_id r = rid then f r else r) (upi_payment_requests d)\<rparr>"

definition mark_expired :: "nat \<Rightarrow> db \<Rightarrow> db" where
  "mark_expired rid = update_request rid (\<lambda>r. r\<lparr>payment_status := expired\<rparr>)"

definition mark_completed :: "string \<Rightarrow> string option \<Rightarrow> nat \<Rightarrow> nat \<Rightarrow> db \<Rightarrow> db" where
  "mark_completed paymentMethod bankRef now rid =
     update_request rid
       (\<lambda>r. r\<lparr>payment_status := completed,
              payment_method := Some paymentMethod,
              bank_reference_number := bankRef,
              paid_at := Some now\<rparr>)"

definition mark_receipt_generated :: "nat \<Rightarrow> db \<Rightarrow> db" where
  "mark_receipt_generated rid = update_request rid (\<lambda>r. r\<lparr>receipt_generated := True\<rparr>)"

text \<open>
  \<open>INSERT INTO payment_receipts\<close>. \<open>receipt_number\<close> is \<open>UNIQUE\<close>: a number already in the
  table is refused. The bind list again holds \<open>bank_reference_number\<close> as the body has it.
\<close>

definition insert_receipt ::
  "string \<Rightarrow> nat \<Rightarrow> string option \<Rightarrow> string option \<Rightarrow> payment_request \<Rightarrow> db \<Rightarrow> db option" where
  "insert_receipt receiptNumber now bankRef paymentMethod p d =
     (if receiptNumber \<in> set (map receipt_number (payment_receipts d)) then None
      else Some (d\<lparr>payment_receipts := payment_receipts d @
         [\<lparr>payment_request_id = request_id p,
           r_member_id = member_id p,
           receipt_number = receiptNumber,
           r_amount = amount p,
           payment_date = now,
           r_purpose = purpose p,
           bank_reference = bankRef,
           r_receipt_data =
             Some \<lparr>society_name = ''KAFAL Co-operative Urban Thrift & Credit Society Ltd.'',
               registration_no = ''10405(E)'',
               registration_date = ''03.05.2016'',
               upi_id = ''meghajoshisut30@oksbi'',
               rd_transaction_id = transaction_id p,
               rd_bank_reference = bankRef,
               rd_payment_method = method_or_upi paymentMethod\<rparr>\<rparr>]\<rparr>))"

text \<open>
  \<open>SELECT * FROM upi_payment_requests WHERE transaction_id = ? AND payment_status =
  'pending'\<close>, first row.
\<close>

definition pending_request :: "string \<Rightarrow> db \<Rightarrow> payment_request option" where
  "pending_request transactionId d =
     find (\<lambda>r. transaction_id r = transactionId \<and> payment_status r = pending)
       (upi_payment_requests d)"

text \<open>
  The callback after the lookup has returned a row. \<open>rnd\<close> is the value of
  \<open>Math.floor(Math.random() * 100)\<close>; the clock is read once per call.
\<close>

definition confirm_request ::
  "executor \<Rightarrow> (step \<Rightarrow> bool) \<Rightarrow> nat \<Rightarrow> nat \<Rightarrow> string option \<Rightarrow> string option
     \<Rightarrow> payment_request \<Rightarrow> (string \<times> payment_request) io" where
  "confirm_request ex flt now rnd bankRef paymentMethod p =
     (if now > expires_at p then
        await (query ex flt MarkExpired True (\<lambda>d. Some (mark_expired (request_id p) d)) True)
          (\<lambda>_. throw Expired)
      else
        await (query ex flt MarkCompleted (bankRef \<noteq> None)
                 (\<lambda>d. Some (mark_completed (method_or_upi paymentMethod) bankRef now
                               (request_id p) d)) True)
          (\<lambda>_. await (updateMemberForPayment ex flt now p)
          (\<lambda>_. let receiptNumber = ''RCP'' @ decimal now @ decimal rnd in
               await (query ex flt InsertReceipt (bankRef \<noteq> None)
                        (insert_receipt receiptNumber now bankRef paymentMethod p) True)
          (\<lambda>_. await (query ex flt MarkReceiptGenerated True
                        (\<lambda>d. Some (mark_receipt_generated (request_id p) d)) True)
          (\<lambda>_. return (receiptNumber, p))))))"

definition confirm_continue ::
  "executor \<Rightarrow> (step \<Rightarrow> bool) \<Rightarrow> nat \<Rightarrow> nat \<Rightarrow> string option \<Rightarrow> string option
     \<Rightarrow> payment_request option \<Rightarrow> (string \<times> payment_request) io" where
  "confirm_continue ex flt now rnd bankRef paymentMethod paymentRequest =
     (case paymentRequest of
        None \<Rightarrow> throw RequestNotFoundOrProcessed
      | Some p \<Rightarrow> confirm_request ex flt now rnd bankRef paymentMethod p)"

definition confirm_callback ::
  "executor \<Rightarrow> (step \<Rightarrow> bool) \<Rightarrow> nat \<Rightarrow> nat \<Rightarrow> string \<Rightarrow> string option \<Rightarrow> string option
     \<Rightarrow> (string \<times> payment_request) io" where
  "confirm_callback ex flt now rnd transactionId bankRef paymentMethod =
     await (getOne flt LookupRequest (pending_request transactionId))
       (confirm_continue ex flt now rnd bankRef paymentMethod)"

record confirm_response =
  c_transaction_id :: string
  c_status :: payment_status
  c_receipt_generated :: bool

text \<open>
  The handler. \<open>caller\<close> is the authenticated member of the request (\<open>req.user\<close>);
  the handler does not read it.
\<close>

definition upi_confirm ::
  "executor \<Rightarrow> (step \<Rightarrow> bool) \<Rightarrow> nat \<Rightarrow> nat \<Rightarrow> nat \<Rightarrow> string \<Rightarrow> string option \<Rightarrow> string option
     \<Rightarrow> db \<Rightarrow> (error + confirm_response) \<times> db" where
  "upi_confirm ex flt now rnd caller transactionId bankRef paymentMethod d =
     (if \<not> confirm_valid transactionId bankRef paymentMethod then (Inl ValidationError, d)
      else
        (case transaction flt (confirm_callback ex flt now rnd transactionId bankRef paymentMethod) d of
           (Inl e, d') \<Rightarrow> (Inl e, d')
         | (Inr res, d') \<Rightarrow>
             (Inr \<lparr>c_transaction_id = transactionId,
                    c_status = completed,
                    c_receipt_generated = True\<rparr>, d')))"

subsection \<open>GET /receipt/:receipt_number\<close>

text \<open>
  \<open>payment_receipts JOIN members JOIN upi_payment_requests WHERE pr.receipt_number = ?
  AND pr.member_id = ?\<close>, first row.
\<close>

definition receipt_rows ::
  "string \<Rightarrow> nat \<Rightarrow> db \<Rightarrow> (receipt \<times> member \<times> payment_request) list" where
  "receipt_rows receiptNumber memberId d =
     [(pr, m, upr).
        pr \<leftarrow> payment_receipts d,
        m \<leftarrow> (case members d (r_member_id pr) of None \<Rightarrow> [] | Some m \<Rightarrow> [m]),
        upr \<leftarrow> upi_payment_requests d,
        payment_request_id pr = request_id upr,
        receipt_number pr = receiptNumber \<and> r_member_id pr = memberId]"

definition first_row :: "'a list \<Rightarrow> 'a option" where
  "first_row rows = (case rows of [] \<Rightarrow> None | r # _ \<Rightarrow> Some r)"

text \<open>
  \<open>JSON.parse(receipt.receipt_data)\<close>. \<open>receipt_data\<close> is a \<open>JSON\<close> column, which mysql2 hands
  over already decoded: \<open>null\<close> for \<open>NULL\<close>, which \<open>JSON.parse\<close> reads as the text
  \<open>null\<close> and accepts, and otherwise the decoded object, which it reads as the text
  \<open>[object Object]\<close> and rejects with a \<open>SyntaxError\<close>.
\<close>

definition json_parse_accepts :: "receipt_data option \<Rightarrow> bool" where
  "json_parse_accepts column = (column = None)"

definition get_receipt ::
  "(step \<Rightarrow> bool) \<Rightarrow> nat \<Rightarrow> string \<Rightarrow> db
     \<Rightarrow> (error + receipt \<times> member \<times> payment_request) \<times> db" where
  "get_receipt flt memberId receiptNumber d =
     run (await (getOne flt LookupReceipt (\<lambda>d'. first_row (receipt_rows receiptNumber memberId d')))
            (\<lambda>receipt. case receipt of
                 None \<Rightarrow> throw NotFound
               | Some (pr, m, upr) \<Rightarrow>
                   if json_parse_accepts (r_receipt_data pr) then return (pr, m, upr)
                   else throw SyntaxError)) d"

subsection \<open>GET /status/:transaction_id\<close>




section \<open>Runs without database failures, and sample data\<close>

definition no_fault :: "step \<Rightarrow> bool" where
  "no_fault st = False"

text \<open>
  The account mutation engine inside the caller's atomic unit: the database that a run of
  \<open>updateMemberForPayment\<close> under \<open>transaction\<close> leaves behind.
\<close>

abbreviation apply_payment :: "executor \<Rightarrow> nat \<Rightarrow> payment_request \<Rightarrow> db \<Rightarrow> db" where
  "apply_payment ex now p d \<equiv>
     snd (transaction no_fault (updateMemberForPayment ex no_fault now p) d)"

text \<open>The member \<open>KCS2025002\<close> of database/sample_admin.sql, as member 1 of an empty society.\<close>

definition test_member :: member where
  "test_member =
     \<lparr>account_number = ''KCS2025002'',
       first_name = ''Test'',
       last_name = ''Member'',
       balance = 0,
       share_count = 2,
       share_value = 200,
       membership_fees_paid = 0,
       entry_fee_paid = False,
       welfare_fund_paid = False,
       building_fund_paid = False,
       status = pending_payment\<rparr>"

definition sample_db :: db where
  "sample_db =
     \<lparr>members = [1 \<mapsto> test_member],
       upi_payment_requests = [],
       transactions = [],
       payment_receipts = []\<rparr>"

text \<open>A pending request of member 1, created at time 0.\<close>

definition sample_request :: "purpose \<Rightarrow> rat \<Rightarrow> payment_request" where
  "sample_request purp amt =
     \<lparr>request_id = 1,
       member_id = 1,
       transaction_id = ''KCS00'',
       amount = amt,
       purpose = purp,
       description = None,
       payment_status = pending,
       payment_method = None,
       bank_reference_number = None,
       receipt_generated = False,
       expires_at = 1800000,
       paid_at = None\<rparr>"

text \<open>The sample society with one pending request of member 1.\<close>

definition pending_db :: "purpose \<Rightarrow> rat \<Rightarrow> db" where
  "pending_db purp amt = sample_db\<lparr>upi_payment_requests := [sample_request purp amt]\<rparr>"

text \<open>
  The rows of database/sample_admin.sql: the members \<open>KCS2025001\<close> and \<open>KCS2025002\<close>, the
  completed membership payment of the first and its receipt.
\<close>

definition seeded_db :: db where
  "seeded_db =
     \<lparr>members =
        [1 \<mapsto> \<lparr>account_number = ''KCS2025001'',
                first_name = ''Devender'',
                last_name = ''Raturi'',
                balance = 0,
                share_count = 20,
                share_value = 2000,
                membership_fees_paid = 2400,
                entry_fee_paid = True,
                welfare_fund_paid = True,
                building_fund_paid = True,
                status = active\<rparr>,
         2 \<mapsto> test_member],
       upi_payment_requests =
        [\<lparr>request_id = 1,
          member_id = 1,
          transaction_id = ''KCS1692611234567'',
          amount = 2400,
          purpose = membership_fee,
          description = Some ''Complete membership fees payment'',
          payment_status = completed,
          payment_method = Some ''UPI'',
          bank_reference_number = Some ''UPI123456789'',
          receipt_generated = True,
          expires_at = 1800000,
          paid_at = Some 0\<rparr>],
       transactions = [],
       payment_receipts =
        [\<lparr>payment_request_id = 1,
          r_member_id = 1,
          receipt_number = ''RCP1692611234567890'',
          r_amount = 2400,
          payment_date = 0,
          r_purpose = membership_fee,
          bank_reference = Some ''UPI123456789'',
          r_receipt_data =
            Some \<lparr>society_name = ''KAFAL Co-operative Urban Thrift & Credit Society Ltd.'',
              registration_no = ''10405(E)'',
              registration_date = ''03.05.2016'',
              upi_id = ''meghajoshisut30@oksbi'',
              rd_transaction_id = ''KCS1692611234567'',
              rd_bank_reference = Some ''UPI123456789'',
              rd_payment_method = ''UPI''\<rparr>\<rparr>]\<rparr>"

section \<open>Concurrent confirm calls\<close>

text \<open>
  A confirm call whose body has passed validation gives way to other calls at each
  \<open>await\<close>. Its first awaited call is the lookup; what follows runs on the row the lookup
  returned, against the database as it is by then. With the unbound helper what follows
  ends at its first statement, so it is one step.
\<close>

record confirm_call =
  c_now :: nat
  c_rnd :: nat
  c_transaction :: string
  c_bank_reference :: "string option"
  c_payment_method :: "string option"

datatype call_state =
    Started
  | Looked "payment_request option"
  | Finished "error + string \<times> payment_request"

definition call_step ::
  "executor \<Rightarrow> (step \<Rightarrow> bool) \<Rightarrow> confirm_call \<Rightarrow> call_state \<Rightarrow> db \<Rightarrow> call_state \<times> db" where
  "call_step ex flt c s d =
     (case s of
        Started \<Rightarrow>
          (case getOne flt LookupRequest (pending_request (c_transaction c)) (d, []) of
             (Inl e, w) \<Rightarrow> (Finished (Inl e), d)
           | (Inr row, w) \<Rightarrow> (Looked row, d))
      | Looked row \<Rightarrow>
          (case transaction flt
                  (confirm_continue ex flt (c_now c) (c_rnd c) (c_bank_reference c)
                     (c_payment_method c) row) d of
             (res, d') \<Rightarrow> (Finished res, d'))
      | Finished res \<Rightarrow> (Finished res, d))"




section \<open>The account mutation engine\<close>

lemmas io_defs = await_def return_def throw_def getOne_def query_def

lemma query_unbound:
  "query Unbound flt st bound stmt connection w = (Inl TypeError, w)"
  by (simp add: query_def)

lemma updateMemberForPayment_unbound:
  "updateMemberForPayment Unbound flt now p w = (Inl TypeError, w)"
  by (simp add: updateMemberForPayment_def await_def query_unbound)

text \<open>
  The row that the \<open>UPDATE\<close> of a membership fee would write: every threshold is compared
  with the payment's own amount, and a payment below 2400 writes \<open>pending_payment\<close>.
\<close>

lemma fee_row:
  "membership_fees_paid (update_member_row membership_fee a m) = membership_fees_paid m + a"
  "entry_fee_paid (update_member_row membership_fee a m) = (entry_fee_paid m \<or> a \<ge> 200)"
  "welfare_fund_paid (update_member_row membership_fee a m) = (welfare_fund_paid m \<or> a \<ge> 400)"
  "building_fund_paid (update_member_row membership_fee a m) = (building_fund_paid m \<or> a \<ge> 2400)"
  "balance (update_member_row membership_fee a m) = balance m"
  "status (update_member_row membership_fee a m) = (if a \<ge> 2400 then active else pending_payment)"
  by (simp_all add: update_member_row_def)

text \<open>The rows that the other purposes would write.\<close>

lemma credit_row:
  "update_member_row share_purchase a m =
     m\<lparr>share_count := share_count m + \<lfloor>a / 100\<rfloor>,
       share_value := share_value m + a,
       balance := balance m + a\<rparr>"
  "update_member_row deposit a m = m\<lparr>balance := balance m + a\<rparr>"
  "update_member_row loan_repayment a m = m\<lparr>balance := balance m + a\<rparr>"
  "update_member_row other a m = m\<lparr>balance := balance m + a\<rparr>"
  by (simp_all add: update_member_row_def)

text \<open>
  With the helper bound, the engine still never returns: the transaction-record insert is
  refused.
\<close>

lemma updateMemberForPayment_fails:
  "\<exists>e w'. updateMemberForPayment ex flt now p w = (Inl e, w')"
  by (cases ex) (simp_all add: updateMemberForPayment_def io_defs insert_transaction_def)

lemma sample_request_fields [simp]:
  "purpose (sample_request purp amt) = purp"
  "member_id (sample_request purp amt) = 1"
  "amount (sample_request purp amt) = amt"
  "request_id (sample_request purp amt) = 1"
  "transaction_id (sample_request purp amt) = ''KCS00''"
  "payment_status (sample_request purp amt) = pending"
  "expires_at (sample_request purp amt) = 1800000"
  by (simp_all add: sample_request_def)

text \<open>
  C1 fails on the code. The engine throws at its first statement, the call of the unbound
  \<open>query\<close>, and writes nothing: after two membership-fee payments of 100 for the sample
  member the database is as it was, with \<open>membership_fees_paid\<close> 0 and \<open>entry_fee_paid\<close>
  false.
\<close>

theorem membership_fee_payments_not_applied:
  "transaction no_fault
     (updateMemberForPayment Unbound no_fault 0 (sample_request membership_fee 100)) sample_db =
     (Inl TypeError, sample_db) \<and>
   apply_payment Unbound 0 (sample_request membership_fee 100)
     (apply_payment Unbound 0 (sample_request membership_fee 100) sample_db) = sample_db \<and>
   map_option membership_fees_paid (members sample_db 1) = Some 0 \<and>
   map_option entry_fee_paid (members sample_db 1) = Some False"
  by (simp add: transaction_def updateMemberForPayment_unbound sample_db_def test_member_def)

section \<open>Confirming a payment\<close>

lemma confirm_request_unbound:
  "confirm_request Unbound flt now rnd bankRef paymentMethod p w = (Inl TypeError, w)"
  by (simp add: confirm_request_def await_def query_unbound)

lemma confirm_request_fails:
  "\<exists>e w'. confirm_request ex flt now rnd bankRef paymentMethod p w = (Inl e, w')"
  by (cases ex)
    (simp_all add: confirm_request_def updateMemberForPayment_def io_defs insert_transaction_def
       Let_def)

lemma confirm_continue_unbound:
  "confirm_continue Unbound flt now rnd bankRef paymentMethod row w =
     (Inl (case row of None \<Rightarrow> RequestNotFoundOrProcessed | Some p \<Rightarrow> TypeError), w)"
  by (simp add: confirm_continue_def throw_def confirm_request_unbound split: option.splits)

lemma upi_confirm_unbound:
  "upi_confirm Unbound flt now rnd caller tid bankRef paymentMethod d =
     (Inl (if \<not> confirm_valid tid bankRef paymentMethod then ValidationError
           else if flt LookupRequest then StorageFailure
           else case pending_request tid d of
                  None \<Rightarrow> RequestNotFoundOrProcessed
                | Some p \<Rightarrow> TypeError), d)"
  by (simp add: upi_confirm_def transaction_def confirm_callback_def await_def getOne_def
      confirm_continue_unbound split: option.splits)

lemma upi_confirm_not_pending:
  assumes "pending_request tid d = None"
  shows "upi_confirm ex flt now rnd caller tid bankRef paymentMethod d =
     (Inl (if \<not> confirm_valid tid bankRef paymentMethod then ValidationError
           else if flt LookupRequest then StorageFailure
           else RequestNotFoundOrProcessed), d)"
  using assms
  by (simp add: upi_confirm_def transaction_def confirm_callback_def confirm_continue_def
      await_def getOne_def throw_def)

lemma confirm_callback_fails:
  "\<exists>e w'. confirm_callback ex flt now rnd tid bankRef paymentMethod w = (Inl e, w')"
proof (cases "flt LookupRequest")
  case True
  then show ?thesis
    by (simp add: confirm_callback_def await_def getOne_def)
next
  case False
  show ?thesis
  proof (cases "pending_request tid (fst w)")
    case None
    with False show ?thesis
      by (simp add: confirm_callback_def confirm_continue_def await_def getOne_def throw_def)
  next
    case (Some p)
    with False confirm_request_fails [of ex flt now rnd bankRef paymentMethod p w]
    show ?thesis
      by (simp add: confirm_callback_def confirm_continue_def await_def getOne_def)
  qed
qed

lemma upi_confirm_fails:
  "\<exists>e d'. upi_confirm ex flt now rnd caller tid bankRef paymentMethod d = (Inl e, d')"
proof -
  obtain e w' where
    "confirm_callback ex flt now rnd tid bankRef paymentMethod (d, []) = (Inl e, w')"
    using confirm_callback_fails by blast
  then show ?thesis
    by (cases w') (simp add: upi_confirm_def transaction_def)
qed

text \<open>
  C2. Every confirm call that fails leaves the database exactly as it was, so the request
  is still pending, the member's account is unchanged and no transaction record or receipt
  of the call exists; and every confirm call fails, since whatever the lookup returns the
  callback throws before a statement is sent.
\<close>

theorem confirm_leaves_no_partial_state:
  "\<exists>e. upi_confirm Unbound flt now rnd caller tid bankRef paymentMethod d = (Inl e, d)"
  by (simp add: upi_confirm_unbound)

text \<open>
  C3. When no request with the transaction id is pending (it has been completed, has
  expired, or never existed), a confirm call fails, with the not-found-or-processed error
  when the body is valid and the lookup itself does not fail, and it leaves the database as
  it was: no second transaction record, no second receipt, no further account mutation.
  In particular, with transaction ids unique, a confirm call after a successful one for
  the same transaction id fails and changes nothing.
\<close>

theorem confirm_rejects_processed_request:
  "(pending_request tid d = None \<longrightarrow>
      (\<exists>e. upi_confirm ex flt now rnd caller tid bankRef paymentMethod d = (Inl e, d)) \<and>
      (confirm_valid tid bankRef paymentMethod \<and> \<not> flt LookupRequest \<longrightarrow>
         upi_confirm ex flt now rnd caller tid bankRef paymentMethod d =
           (Inl RequestNotFoundOrProcessed, d))) \<and>
   (distinct (map transaction_id (upi_payment_requests d)) \<and>
    upi_confirm ex flt now rnd caller tid bankRef paymentMethod d = (Inr res, d') \<longrightarrow>
      (\<exists>e. upi_confirm ex2 flt2 now2 rnd2 caller2 tid bankRef2 paymentMethod2 d' = (Inl e, d')))"
proof (intro conjI impI)
  assume "pending_request tid d = None"
  then show "\<exists>e. upi_confirm ex flt now rnd caller tid bankRef paymentMethod d = (Inl e, d)"
    by (simp add: upi_confirm_not_pending)
next
  assume "pending_request tid d = None" "confirm_valid tid bankRef paymentMethod \<and> \<not> flt LookupRequest"
  then show "upi_confirm ex flt now rnd caller tid bankRef paymentMethod d =
      (Inl RequestNotFoundOrProcessed, d)"
    by (simp add: upi_confirm_not_pending)
next
  assume "distinct (map transaction_id (upi_payment_requests d)) \<and>
    upi_confirm ex flt now rnd caller tid bankRef paymentMethod d = (Inr res, d')"
  with upi_confirm_fails [of ex flt now rnd caller tid bankRef paymentMethod d]
  show "\<exists>e. upi_confirm ex2 flt2 now2 rnd2 caller2 tid bankRef2 paymentMethod2 d' = (Inl e, d')"
    by auto
qed

lemma seeded_db_no_pending:
  "pending_request ''KCS1692611234567'' seeded_db = None"
  by (simp add: pending_request_def seeded_db_def)

theorem confirm_rejects_processed_request_witness:
  "upi_confirm Unbound no_fault 10 3 1 ''KCS1692611234567'' (Some ''UPI123456789'') None seeded_db =
     (Inl RequestNotFoundOrProcessed, seeded_db)"
proof -
  have valid: "confirm_valid ''KCS1692611234567'' (Some ''UPI123456789'') None"
    by (simp add: confirm_valid_def)
  have nofault: "\<not> no_fault LookupRequest"
    by (simp add: no_fault_def)
  from confirm_rejects_processed_request
      [of "''KCS1692611234567''" seeded_db Unbound no_fault 10 3 1 "Some ''UPI123456789''" None]
    seeded_db_no_pending valid nofault
  show ?thesis by simp
qed

lemma pending_db_request [simp]:
  "pending_request ''KCS00'' (pending_db purp amt) = Some (sample_request purp amt)"
  by (simp add: pending_request_def pending_db_def)

lemma confirm_valid_sample [simp]:
  "confirm_valid ''KCS00'' (Some ''UPI123456789'') None"
  by (simp add: confirm_valid_def)

text \<open>
  C4 fails on the code. A confirm call made after the expiry of the sample request reaches
  the \<open>UPDATE\<close> that would mark it expired, which is a call of the unbound \<open>query\<close>: the
  call ends in a \<open>TypeError\<close>, not in \<open>Expired\<close>, and the request stays pending.
\<close>

theorem confirm_after_expiry_stays_pending:
  "upi_confirm Unbound no_fault 1800001 7 1 ''KCS00'' (Some ''UPI123456789'') None
     (pending_db deposit 500) = (Inl TypeError, pending_db deposit 500) \<and>
   map payment_status (upi_payment_requests (pending_db deposit 500)) = [pending]"
  by (simp add: upi_confirm_unbound no_fault_def) (simp add: pending_db_def)

section \<open>No double credit\<close>



text \<open>Taken back to back, the steps of one call are the confirm handler's transaction.\<close>

lemma call_steps_sequential:
  "(case call_step ex flt c Started d of (s, d1) \<Rightarrow> call_step ex flt c s d1) =
     (case transaction flt
             (confirm_callback ex flt (c_now c) (c_rnd c) (c_transaction c) (c_bank_reference c)
                (c_payment_method c)) d of
        (res, d') \<Rightarrow> (Finished res, d'))"
  by (simp add: call_step_def confirm_callback_def await_def getOne_def transaction_def)



section \<open>Requesting a payment\<close>

lemma purpose_of_name_iff:
  "purpose_of_name s = None \<longleftrightarrow>
     s \<notin> {''membership_fee'', ''share_purchase'', ''loan_repayment'', ''deposit'', ''other''}"
  by (simp add: purpose_of_name_def)

text \<open>
  What the validators of the generate route accept: amounts of at least 1, the five
  purposes, descriptions of at most 500 characters.
\<close>

lemma upi_generate_validation:
  "fst (upi_generate ex flt now rnd mid amt purp descr d) = Inl ValidationError \<longleftrightarrow>
     \<not> (amt \<ge> 1 \<and>
        purp \<in> {''membership_fee'', ''share_purchase'', ''loan_repayment'', ''deposit'', ''other''} \<and>
        (case descr of None \<Rightarrow> True | Some s \<Rightarrow> length s \<le> 500))"
proof (cases "generate_valid amt purp descr")
  case False
  then show ?thesis
    by (simp add: upi_generate_def generate_valid_def purpose_of_name_iff)
next
  case True
  then have "fst (upi_generate ex flt now rnd mid amt purp descr d) \<noteq> Inl ValidationError"
    by (cases ex)
      (auto simp: upi_generate_def run_def io_defs Let_def split: option.splits prod.splits)
  with True show ?thesis
    by (simp add: generate_valid_def purpose_of_name_iff)
qed

lemma upi_generate_unbound:
  assumes "generate_valid amt purp descr"
  shows "upi_generate Unbound flt now rnd mid amt purp descr d = (Inl TypeError, d)"
  using assms by (simp add: upi_generate_def run_def await_def query_unbound Let_def)

text \<open>
  C10 fails on the code. The amount validator is \<open>isFloat({ min: 1 })\<close>, whose own message
  reads "Amount must be greater than 0": a request for half a rupee, with a valid purpose
  and no description, is rejected with a validation error and nothing is persisted.
\<close>

theorem generate_rejects_half_rupee:
  "upi_generate OnPool no_fault 0 0 1 (1 / 2) ''deposit'' None sample_db =
     (Inl ValidationError, sample_db)"
  by (simp add: upi_generate_def generate_valid_def)

lemma decimal_0 [simp]: "decimal 0 = ''0''"
  by (simp add: decimal.simps)

text \<open>
  C5 fails on the code. Generate validates the spec's share purchase of 250 and then calls
  the unbound \<open>query\<close>: it ends in a \<open>TypeError\<close> and persists no request, so the confirm
  call for the transaction id it would have issued finds nothing, and no transaction
  record is appended.
\<close>

theorem generate_then_confirm_appends_nothing:
  "upi_generate Unbound no_fault 0 0 1 250 ''share_purchase'' None sample_db =
     (Inl TypeError, sample_db) \<and>
   upi_confirm Unbound no_fault 5 7 1 ''KCS00'' (Some ''UPI123456789'') None sample_db =
     (Inl RequestNotFoundOrProcessed, sample_db) \<and>
   transactions sample_db = []"
proof -
  have "generate_valid 250 ''share_purchase'' None"
    by (simp add: generate_valid_def purpose_of_name_def)
  moreover have "pending_request ''KCS00'' sample_db = None"
    by (simp add: pending_request_def sample_db_def)
  ultimately show ?thesis
    by (simp add: upi_generate_unbound upi_confirm_unbound no_fault_def) (simp add: sample_db_def)
qed

section \<open>Reading a receipt\<close>

lemma set_receipt_rows:
  "set (receipt_rows rno mid d) =
     {(pr, m, upr). pr \<in> set (payment_receipts d) \<and> members d (r_member_id pr) = Some m \<and>
        upr \<in> set (upi_payment_requests d) \<and> payment_request_id pr = request_id upr \<and>
        receipt_number pr = rno \<and> r_member_id pr = mid}"
  by (auto simp: receipt_rows_def split: option.splits if_splits)

lemma get_receipt_eq:
  assumes "\<not> flt LookupReceipt"
  shows "get_receipt flt mid rno d =
     (case first_row (receipt_rows rno mid d) of
        None \<Rightarrow> (Inl NotFound, d)
      | Some (pr, m, upr) \<Rightarrow>
          if r_receipt_data pr = None then (Inr (pr, m, upr), d) else (Inl SyntaxError, d))"
  using assms
  by (auto simp: get_receipt_def run_def io_defs json_parse_accepts_def split: option.splits)

text \<open>A member who does not own a receipt of that number is answered \<open>NotFound\<close>.\<close>

lemma get_receipt_not_owned:
  assumes "\<not> flt LookupReceipt"
    and "\<not> (\<exists>pr \<in> set (payment_receipts d). receipt_number pr = rno \<and> r_member_id pr = mid)"
  shows "get_receipt flt mid rno d = (Inl NotFound, d)"
proof -
  from assms(2) have "set (receipt_rows rno mid d) = {}"
    unfolding set_receipt_rows by auto
  then have "first_row (receipt_rows rno mid d) = None"
    by (simp add: first_row_def)
  then show ?thesis
    using assms(1) by (simp add: get_receipt_eq)
qed

text \<open>What is returned is a receipt of that number owned by the requesting member.\<close>

lemma get_receipt_owned:
  assumes "get_receipt flt mid rno d = (Inr (pr, m, upr), d')"
  shows "pr \<in> set (payment_receipts d) \<and> receipt_number pr = rno \<and> r_member_id pr = mid"
proof -
  from assms have nofault: "\<not> flt LookupReceipt"
    by (auto simp: get_receipt_def run_def io_defs split: if_splits)
  from assms have "first_row (receipt_rows rno mid d) = Some (pr, m, upr)"
    by (auto simp: get_receipt_eq [where flt = flt, OF nofault] split: option.splits if_splits)
  then have "(pr, m, upr) \<in> set (receipt_rows rno mid d)"
    by (cases "receipt_rows rno mid d") (simp_all add: first_row_def)
  then show ?thesis
    unfolding set_receipt_rows by simp
qed

text \<open>
  C7 fails on the code. The member who owns the receipt of database/sample_admin.sql asks
  for it: the row is found, \<open>JSON.parse\<close> is applied to the already decoded
  \<open>receipt_data\<close>, and the handler answers 500 without returning the receipt.
\<close>

theorem owner_cannot_read_receipt:
  "get_receipt no_fault 1 ''RCP1692611234567890'' seeded_db = (Inl SyntaxError, seeded_db)"
proof -
  have "receipt_rows ''RCP1692611234567890'' 1 seeded_db \<noteq> []"
    by (simp add: receipt_rows_def seeded_db_def)
  then obtain row rest where rows: "receipt_rows ''RCP1692611234567890'' 1 seeded_db = row # rest"
    by (cases "receipt_rows ''RCP1692611234567890'' 1 seeded_db") simp_all
  then have "row \<in> set (receipt_rows ''RCP1692611234567890'' 1 seeded_db)"
    by simp
  then have "r_receipt_data (fst row) \<noteq> None"
    unfolding set_receipt_rows by (auto simp: seeded_db_def)
  with rows show ?thesis
    by (cases row) (simp add: get_receipt_eq no_fault_def first_row_def)
qed

section \<open>Who may confirm\<close>








section \<open>Reading a status\<close>




end
